theory Spec2Isabelle
  imports Main
begin

section \<open>The channel scope registry of Grafana Live\<close>

text \<open>
  A shallow embedding of \<^verbatim>\<open>public/app/features/live/channel-config/scope.ts\<close>:
  the abstract class \<^verbatim>\<open>GrafanaLiveScope\<close> and its four subclasses (core, data source,
  plugin, stream).

  \<^item> Objects are references into an explicit store: \<^verbatim>\<open>new\<close> and an array literal
    allocate a fresh address, \<^verbatim>\<open>push\<close> updates the array stored at an address, and
    \<^verbatim>\<open>===\<close> on objects is equality of addresses.
  \<^item> An \<^verbatim>\<open>async\<close> method returns a promise that is either rejected with an error
    or fulfilled with a value: the result type is \<open>js_error + 'a\<close>, with \<open>Inl\<close>
    the rejection. Calls are modelled one after the other, each running to completion.
  \<^item> \<^verbatim>\<open>this\<close> and the store are passed in and returned.
  \<^item> The \<^verbatim>\<open>scope\<close> tag a constructor hands to \<^verbatim>\<open>super\<close> is never read in the
    file and is left out.
  \<^item> The imports the file only calls (\<^verbatim>\<open>getDataSourceSrv().get\<close>, \<^verbatim>\<open>loadPlugin\<close>,
    \<^verbatim>\<open>config\<close>) are fields of a record \<open>runtime\<close> handed to every call.
\<close>

subsection \<open>Values, errors and the store\<close>

type_synonym addr = nat

text \<open>
  \<^verbatim>\<open>SelectableValue<string>\<close> as the file builds it: \<^verbatim>\<open>value\<close> and \<^verbatim>\<open>label\<close> are
  always set to strings, \<^verbatim>\<open>description\<close> may be \<^verbatim>\<open>undefined\<close>.
\<close>

record SelectableValue =
  sv_value :: string
  sv_label :: string
  sv_description :: "string option"

text \<open>
  A value that is thrown, or that a promise is rejected with: the class it was
  constructed from (\<^verbatim>\<open>err.constructor.name\<close>), its \<^verbatim>\<open>message\<close>, and whether a new
  property can be set on it. JavaScript lets any value be thrown: \<open>err_extensible\<close>
  is false for \<^verbatim>\<open>undefined\<close>, \<^verbatim>\<open>null\<close>, a primitive (a string, a number) and an
  object that is frozen, sealed or otherwise not extensible, and true for an ordinary
  object. The only class this file constructs is \<^verbatim>\<open>Error\<close>, and what \<^verbatim>\<open>new Error\<close>
  builds is extensible; a collaborator may reject with any value.
\<close>

record js_error =
  err_class :: string
  err_message :: string
  err_extensible :: bool

definition new_Error :: "string \<Rightarrow> js_error" where
  "new_Error msg = \<lparr>err_class = ''Error'', err_message = msg, err_extensible = True\<rparr>"

text \<open>
  The objects this file allocates: arrays of \<^verbatim>\<open>SelectableValue\<close> and instances of
  \<^verbatim>\<open>LiveMeasurementsSupport\<close>. A \<^verbatim>\<open>LiveChannelSupport\<close> owned by a feature, a data
  source or a plugin is known by its address only.
\<close>

datatype heap_obj = Array "SelectableValue list" | LiveMeasurementsSupport

record heap =
  objs :: "addr \<rightharpoonup> heap_obj"
  nextAddr :: addr

definition alloc :: "heap_obj \<Rightarrow> heap \<Rightarrow> addr \<times> heap" where
  "alloc ob h = (nextAddr h, h\<lparr>objs := (objs h)(nextAddr h \<mapsto> ob), nextAddr := Suc (nextAddr h)\<rparr>)"

text \<open>\<^verbatim>\<open>[]\<close>: a new empty array.\<close>

definition new_Array :: "heap \<Rightarrow> addr \<times> heap" where
  "new_Array h = alloc (Array []) h"

text \<open>\<^verbatim>\<open>new LiveMeasurementsSupport()\<close>.\<close>

definition new_LiveMeasurementsSupport :: "heap \<Rightarrow> addr \<times> heap" where
  "new_LiveMeasurementsSupport h = alloc LiveMeasurementsSupport h"

text \<open>
  \<^verbatim>\<open>a.push(x)\<close> for a reference \<open>a\<close> of array type. The source only pushes to a
  reference that holds an array; on any other store the model leaves it as it is.
\<close>

definition push :: "addr \<Rightarrow> SelectableValue \<Rightarrow> heap \<Rightarrow> heap" where
  "push a x h =
     (case objs h a of
        Some (Array xs) \<Rightarrow> h\<lparr>objs := (objs h)(a \<mapsto> Array (xs @ [x]))\<rparr>
      | _ \<Rightarrow> h)"

subsection \<open>The imported collaborators\<close>

text \<open>
  \<^verbatim>\<open>CoreGrafanaLiveFeature\<close> (from \<^verbatim>\<open>./types\<close>): the three fields \<^verbatim>\<open>register\<close> reads.
\<close>

record CoreGrafanaLiveFeature =
  feature_name :: string
  feature_support :: addr
  feature_description :: string

text \<open>
  A data source instance and a plugin, as far as the file reads them: the optional
  \<^verbatim>\<open>channelSupport\<close>.
\<close>

record DataSourceApi =
  ds_channelSupport :: "addr option"

record GrafanaPlugin =
  plugin_channelSupport :: "addr option"

text \<open>
  The entries of \<^verbatim>\<open>config.datasources\<close> and \<^verbatim>\<open>config.panels\<close>, with the fields the
  file reads.
\<close>

record DataSourcePluginMeta =
  meta_live :: bool

record DataSourceInstanceSettings =
  ds_name :: string
  ds_type :: string
  ds_meta :: DataSourcePluginMeta

record PluginMetaInfo =
  info_description :: string

record PanelPluginMeta =
  panel_name :: string
  panel_live :: bool
  panel_info :: "PluginMetaInfo option"

text \<open>
  What the file imports and calls. \<open>getDataSourceSrv_get\<close> is
  \<^verbatim>\<open>getDataSourceSrv().get\<close> and may reject; \<open>loadPlugin\<close> may reject or yield
  \<^verbatim>\<open>undefined\<close>; \<open>config_datasources\<close> and \<open>config_panels\<close> are
  \<^verbatim>\<open>Object.entries(config.datasources)\<close> and \<^verbatim>\<open>Object.entries(config.panels)\<close>,
  in iteration order. \<open>typeError_message\<close> is the text the JavaScript engine gives the
  \<^verbatim>\<open>TypeError\<close> it throws when a property cannot be set on a value; the source does
  not decide it.
\<close>

record runtime =
  getDataSourceSrv_get :: "string \<Rightarrow> js_error + DataSourceApi"
  loadPlugin :: "string \<Rightarrow> js_error + GrafanaPlugin option"
  config_datasources :: "(string \<times> DataSourceInstanceSettings) list"
  config_panels :: "(string \<times> PanelPluginMeta) list"
  typeError_message :: "js_error \<Rightarrow> string"

text \<open>
  \<^verbatim>\<open>err.isHandled = true\<close>, the body of both \<^verbatim>\<open>catch\<close> blocks. A class body is
  strict code: the assignment succeeds on a value that takes a new property and throws a
  \<^verbatim>\<open>TypeError\<close> on any other. The marked error object is not used again.
\<close>

definition set_isHandled :: "runtime \<Rightarrow> js_error \<Rightarrow> js_error + unit" where
  "set_isHandled rt err =
     (if err_extensible err then Inr ()
      else Inl \<lparr>err_class = ''TypeError'', err_message = typeError_message rt err,
                err_extensible = True\<rparr>)"

subsection \<open>The core scope\<close>

record GrafanaLiveCoreScope =
  features :: "string \<rightharpoonup> addr"
  namespaces :: addr

text \<open>The constructor: an empty map and a new empty array.\<close>

definition new_GrafanaLiveCoreScope :: "heap \<Rightarrow> GrafanaLiveCoreScope \<times> heap" where
  "new_GrafanaLiveCoreScope h =
     (case new_Array h of (a, h') \<Rightarrow> (\<lparr>features = Map.empty, namespaces = a\<rparr>, h'))"

definition register :: "CoreGrafanaLiveFeature \<Rightarrow> GrafanaLiveCoreScope \<Rightarrow> heap
    \<Rightarrow> GrafanaLiveCoreScope \<times> heap" where
  "register feature this h =
     (this\<lparr>features := (features this)(feature_name feature \<mapsto> feature_support feature)\<rparr>,
      push (namespaces this)
        \<lparr>sv_value = feature_name feature,
         sv_label = feature_name feature,
         sv_description = Some (feature_description feature)\<rparr> h)"

text \<open>
  \<^verbatim>\<open>if (v)\<close> tests what \<^verbatim>\<open>features.get\<close> found: \<^verbatim>\<open>undefined\<close> is falsy, an object
  reference is truthy.
\<close>

definition core_getChannelSupport :: "string \<Rightarrow> GrafanaLiveCoreScope \<Rightarrow> heap
    \<Rightarrow> (js_error + addr) \<times> GrafanaLiveCoreScope \<times> heap" where
  "core_getChannelSupport namespace this h =
     (case features this namespace of
        Some v \<Rightarrow> (Inr v, this, h)
      | None \<Rightarrow> (Inl (new_Error (''unknown feature: '' @ namespace)), this, h))"

definition core_listNamespaces :: "GrafanaLiveCoreScope \<Rightarrow> heap
    \<Rightarrow> (js_error + addr) \<times> GrafanaLiveCoreScope \<times> heap" where
  "core_listNamespaces this h = (Inr (namespaces this), this, h)"

text \<open>A sequence of \<^verbatim>\<open>register\<close> calls, first to last.\<close>

fun registerAll :: "CoreGrafanaLiveFeature list \<Rightarrow> GrafanaLiveCoreScope \<Rightarrow> heap
    \<Rightarrow> GrafanaLiveCoreScope \<times> heap" where
  "registerAll [] this h = (this, h)"
| "registerAll (f # fs) this h =
     (case register f this h of (this', h') \<Rightarrow> registerAll fs this' h')"

subsection \<open>The data source scope\<close>

record GrafanaLiveDataSourceScope =
  ds_names :: "addr option"

definition new_GrafanaLiveDataSourceScope :: GrafanaLiveDataSourceScope where
  "new_GrafanaLiveDataSourceScope = \<lparr>ds_names = None\<rparr>"

definition ds_getChannelSupport :: "runtime \<Rightarrow> string \<Rightarrow> GrafanaLiveDataSourceScope \<Rightarrow> heap
    \<Rightarrow> (js_error + addr) \<times> GrafanaLiveDataSourceScope \<times> heap" where
  "ds_getChannelSupport rt namespace this h =
     (case getDataSourceSrv_get rt namespace of
        Inl err \<Rightarrow> (Inl err, this, h)
      | Inr ds \<Rightarrow>
          (case ds_channelSupport ds of
             Some cs \<Rightarrow> (Inr cs, this, h)
           | None \<Rightarrow> (case new_LiveMeasurementsSupport h of (a, h') \<Rightarrow> (Inr a, this, h'))))"

text \<open>
  The loop of \<^verbatim>\<open>listNamespaces\<close> over the entries of \<^verbatim>\<open>config.datasources\<close>;
  \<open>names\<close> is the local array. The result is \<open>Inr ()\<close> when the loop runs to its end
  and \<open>Inl\<close> the error that left it. What a fulfilled lookup yields is an object
  reference, so \<^verbatim>\<open>if (s)\<close> holds. A rejected lookup enters the \<^verbatim>\<open>catch\<close>: when the
  rejection value can be marked handled the loop goes on with the next entry; when it
  cannot, the \<^verbatim>\<open>TypeError\<close> of the assignment leaves the loop and the method.
\<close>

fun ds_scan :: "runtime \<Rightarrow> addr \<Rightarrow> (string \<times> DataSourceInstanceSettings) list
    \<Rightarrow> GrafanaLiveDataSourceScope \<Rightarrow> heap
    \<Rightarrow> (js_error + unit) \<times> GrafanaLiveDataSourceScope \<times> heap" where
  "ds_scan rt names [] this h = (Inr (), this, h)"
| "ds_scan rt names ((key, ds) # rest) this h =
     (if meta_live (ds_meta ds) then
        (case ds_getChannelSupport rt key this h of
           (Inr s, this', h') \<Rightarrow>
             ds_scan rt names rest this'
               (push names \<lparr>sv_value = ds_type ds, sv_label = ds_name ds,
                             sv_description = Some (ds_type ds)\<rparr> h')
         | (Inl err, this', h') \<Rightarrow>
             (case set_isHandled rt err of
                Inr _ \<Rightarrow> ds_scan rt names rest this' h'
              | Inl thrown \<Rightarrow> (Inl thrown, this', h')))
      else ds_scan rt names rest this h)"

text \<open>
  An array reference is truthy, an empty array too: \<^verbatim>\<open>if (this.names)\<close>. When the loop
  is left by an error the method rejects with it, and the assignment to
  \<^verbatim>\<open>this.names\<close> is not reached.
\<close>

definition ds_listNamespaces :: "runtime \<Rightarrow> GrafanaLiveDataSourceScope \<Rightarrow> heap
    \<Rightarrow> (js_error + addr) \<times> GrafanaLiveDataSourceScope \<times> heap" where
  "ds_listNamespaces rt this h =
     (case ds_names this of
        Some cached \<Rightarrow> (Inr cached, this, h)
      | None \<Rightarrow>
          (case new_Array h of
             (names, h1) \<Rightarrow>
               (case ds_scan rt names (config_datasources rt) this h1 of
                  (Inr _, this', h2) \<Rightarrow> (Inr names, this'\<lparr>ds_names := Some names\<rparr>, h2)
                | (Inl thrown, this', h2) \<Rightarrow> (Inl thrown, this', h2))))"

subsection \<open>The plugin scope\<close>

record GrafanaLivePluginScope =
  plugin_names :: "addr option"

definition new_GrafanaLivePluginScope :: GrafanaLivePluginScope where
  "new_GrafanaLivePluginScope = \<lparr>plugin_names = None\<rparr>"

definition plugin_getChannelSupport :: "runtime \<Rightarrow> string \<Rightarrow> GrafanaLivePluginScope \<Rightarrow> heap
    \<Rightarrow> (js_error + addr) \<times> GrafanaLivePluginScope \<times> heap" where
  "plugin_getChannelSupport rt namespace this h =
     (case loadPlugin rt namespace of
        Inl err \<Rightarrow> (Inl err, this, h)
      | Inr None \<Rightarrow> (Inl (new_Error (''Unknown streaming plugin: '' @ namespace)), this, h)
      | Inr (Some plugin) \<Rightarrow>
          (case plugin_channelSupport plugin of
             Some cs \<Rightarrow> (Inr cs, this, h)
           | None \<Rightarrow>
               (Inl (new_Error (''Plugin does not support streaming: '' @ namespace)), this, h)))"

text \<open>\<^verbatim>\<open>panel.info?.description\<close>.\<close>

definition info_description_opt :: "PanelPluginMeta \<Rightarrow> string option" where
  "info_description_opt panel =
     (case panel_info panel of None \<Rightarrow> None | Some i \<Rightarrow> Some (info_description i))"

text \<open>
  The loop over the entries of \<^verbatim>\<open>config.panels\<close>, with the same \<^verbatim>\<open>catch\<close> as the
  data source scope's.
\<close>

fun plugin_scan :: "runtime \<Rightarrow> addr \<Rightarrow> (string \<times> PanelPluginMeta) list
    \<Rightarrow> GrafanaLivePluginScope \<Rightarrow> heap
    \<Rightarrow> (js_error + unit) \<times> GrafanaLivePluginScope \<times> heap" where
  "plugin_scan rt names [] this h = (Inr (), this, h)"
| "plugin_scan rt names ((key, panel) # rest) this h =
     (if panel_live panel then
        (case plugin_getChannelSupport rt key this h of
           (Inr s, this', h') \<Rightarrow>
             plugin_scan rt names rest this'
               (push names \<lparr>sv_value = key, sv_label = panel_name panel,
                             sv_description = info_description_opt panel\<rparr> h')
         | (Inl err, this', h') \<Rightarrow>
             (case set_isHandled rt err of
                Inr _ \<Rightarrow> plugin_scan rt names rest this' h'
              | Inl thrown \<Rightarrow> (Inl thrown, this', h')))
      else plugin_scan rt names rest this h)"

definition plugin_listNamespaces :: "runtime \<Rightarrow> GrafanaLivePluginScope \<Rightarrow> heap
    \<Rightarrow> (js_error + addr) \<times> GrafanaLivePluginScope \<times> heap" where
  "plugin_listNamespaces rt this h =
     (case plugin_names this of
        Some cached \<Rightarrow> (Inr cached, this, h)
      | None \<Rightarrow>
          (case new_Array h of
             (names, h1) \<Rightarrow>
               (case plugin_scan rt names (config_panels rt) this h1 of
                  (Inr _, this', h2) \<Rightarrow>
                    (Inr names, this'\<lparr>plugin_names := Some names\<rparr>, h2)
                | (Inl thrown, this', h2) \<Rightarrow> (Inl thrown, this', h2))))"

subsection \<open>The stream scope\<close>

record GrafanaLiveStreamScope =
  stream_names :: "addr option"

definition new_GrafanaLiveStreamScope :: GrafanaLiveStreamScope where
  "new_GrafanaLiveStreamScope = \<lparr>stream_names = None\<rparr>"

definition stream_getChannelSupport :: "string \<Rightarrow> GrafanaLiveStreamScope \<Rightarrow> heap
    \<Rightarrow> (js_error + addr) \<times> GrafanaLiveStreamScope \<times> heap" where
  "stream_getChannelSupport namespace this h =
     (case new_LiveMeasurementsSupport h of (a, h') \<Rightarrow> (Inr a, this, h'))"

definition stream_listNamespaces :: "GrafanaLiveStreamScope \<Rightarrow> heap
    \<Rightarrow> (js_error + addr) \<times> GrafanaLiveStreamScope \<times> heap" where
  "stream_listNamespaces this h =
     (case stream_names this of
        Some cached \<Rightarrow> (Inr cached, this, h)
      | None \<Rightarrow>
          (case new_Array h of
             (names, h1) \<Rightarrow> (Inr names, this\<lparr>stream_names := Some names\<rparr>, h1)))"

subsection \<open>The abstract class: dispatch on the scope\<close>

datatype GrafanaLiveScope =
    Core GrafanaLiveCoreScope
  | DataSource GrafanaLiveDataSourceScope
  | Plugin GrafanaLivePluginScope
  | Stream GrafanaLiveStreamScope

fun getChannelSupport :: "runtime \<Rightarrow> string \<Rightarrow> GrafanaLiveScope \<Rightarrow> heap
    \<Rightarrow> (js_error + addr) \<times> GrafanaLiveScope \<times> heap" where
  "getChannelSupport rt namespace (Core this) h =
     (case core_getChannelSupport namespace this h of (r, this', h') \<Rightarrow> (r, Core this', h'))"
| "getChannelSupport rt namespace (DataSource this) h =
     (case ds_getChannelSupport rt namespace this h of (r, this', h') \<Rightarrow> (r, DataSource this', h'))"
| "getChannelSupport rt namespace (Plugin this) h =
     (case plugin_getChannelSupport rt namespace this h of (r, this', h') \<Rightarrow> (r, Plugin this', h'))"
| "getChannelSupport rt namespace (Stream this) h =
     (case stream_getChannelSupport namespace this h of (r, this', h') \<Rightarrow> (r, Stream this', h'))"

fun listNamespaces :: "runtime \<Rightarrow> GrafanaLiveScope \<Rightarrow> heap
    \<Rightarrow> (js_error + addr) \<times> GrafanaLiveScope \<times> heap" where
  "listNamespaces rt (Core this) h =
     (case core_listNamespaces this h of (r, this', h') \<Rightarrow> (r, Core this', h'))"
| "listNamespaces rt (DataSource this) h =
     (case ds_listNamespaces rt this h of (r, this', h') \<Rightarrow> (r, DataSource this', h'))"
| "listNamespaces rt (Plugin this) h =
     (case plugin_listNamespaces rt this h of (r, this', h') \<Rightarrow> (r, Plugin this', h'))"
| "listNamespaces rt (Stream this) h =
     (case stream_listNamespaces this h of (r, this', h') \<Rightarrow> (r, Stream this', h'))"

subsection \<open>What the lists are expected to hold\<close>

text \<open>
  The entry a registered feature, a data source and a panel stands for in a namespace
  list, and the entries of the configuration a scan is expected to keep. These are
  stated from the description of the registry and compared with the loops above.
\<close>

definition core_entry :: "CoreGrafanaLiveFeature \<Rightarrow> SelectableValue" where
  "core_entry f =
     \<lparr>sv_value = feature_name f, sv_label = feature_name f,
      sv_description = Some (feature_description f)\<rparr>"

definition ds_entry :: "string \<times> DataSourceInstanceSettings \<Rightarrow> SelectableValue" where
  "ds_entry e =
     (case e of (key, ds) \<Rightarrow>
        \<lparr>sv_value = ds_type ds, sv_label = ds_name ds, sv_description = Some (ds_type ds)\<rparr>)"

definition ds_listed :: "runtime \<Rightarrow> string \<times> DataSourceInstanceSettings \<Rightarrow> bool" where
  "ds_listed rt e =
     (case e of (key, ds) \<Rightarrow>
        meta_live (ds_meta ds) \<and>
        (case getDataSourceSrv_get rt key of Inr _ \<Rightarrow> True | Inl _ \<Rightarrow> False))"

definition plugin_entry :: "string \<times> PanelPluginMeta \<Rightarrow> SelectableValue" where
  "plugin_entry e =
     (case e of (key, panel) \<Rightarrow>
        \<lparr>sv_value = key, sv_label = panel_name panel,
         sv_description =
           (case panel_info panel of None \<Rightarrow> None | Some i \<Rightarrow> Some (info_description i))\<rparr>)"

definition plugin_listed :: "runtime \<Rightarrow> string \<times> PanelPluginMeta \<Rightarrow> bool" where
  "plugin_listed rt e =
     (case e of (key, panel) \<Rightarrow>
        panel_live panel \<and>
        (case loadPlugin rt key of
           Inr (Some plugin) \<Rightarrow> plugin_channelSupport plugin \<noteq> None
         | _ \<Rightarrow> False))"

text \<open>
  The entries at which a scan is left: a live data source, or a live panel, whose
  collaborator rejects with a value that cannot be marked handled. (What
  \<^verbatim>\<open>getChannelSupport\<close> of the plugin scope throws itself is a new \<^verbatim>\<open>Error\<close>, which
  can.)
\<close>

definition ds_blocks :: "runtime \<Rightarrow> string \<times> DataSourceInstanceSettings \<Rightarrow> bool" where
  "ds_blocks rt e =
     (case e of (key, ds) \<Rightarrow>
        meta_live (ds_meta ds) \<and>
        (case getDataSourceSrv_get rt key of Inl err \<Rightarrow> \<not> err_extensible err | Inr _ \<Rightarrow> False))"

definition plugin_blocks :: "runtime \<Rightarrow> string \<times> PanelPluginMeta \<Rightarrow> bool" where
  "plugin_blocks rt e =
     (case e of (key, panel) \<Rightarrow>
        panel_live panel \<and>
        (case loadPlugin rt key of Inl err \<Rightarrow> \<not> err_extensible err | Inr _ \<Rightarrow> False))"

text \<open>
  The lookups that end in \<^verbatim>\<open>new LiveMeasurementsSupport()\<close>: every lookup of the
  stream scope, and a lookup of the data source scope whose data source resolves and
  has no \<^verbatim>\<open>channelSupport\<close>.
\<close>

definition constructs_default :: "runtime \<Rightarrow> string \<Rightarrow> GrafanaLiveScope \<Rightarrow> bool" where
  "constructs_default rt namespace sc =
     (case sc of
        Stream _ \<Rightarrow> True
      | DataSource _ \<Rightarrow>
          (case getDataSourceSrv_get rt namespace of
             Inr ds \<Rightarrow> ds_channelSupport ds = None
           | Inl _ \<Rightarrow> False)
      | _ \<Rightarrow> False)"

subsection \<open>Concrete inputs\<close>

text \<open>
  A store whose addresses below 10 belong to support objects owned by collaborators,
  two registrations of the feature \<open>alpha\<close>, and a runtime with two live data sources
  (one resolves, one rejects with a new \<^verbatim>\<open>Error\<close>) and four panels. In
  \<open>frozen_runtime\<close> the resolver rejects for the first data source with a frozen
  error object, \<^verbatim>\<open>Object.freeze(new Error('Datasource not found'))\<close>.
\<close>

definition heap0 :: heap where
  "heap0 = \<lparr>objs = Map.empty, nextAddr = 10\<rparr>"

definition alphaA :: CoreGrafanaLiveFeature where
  "alphaA = \<lparr>feature_name = ''alpha'', feature_support = 1, feature_description = ''desc-A''\<rparr>"

definition alphaB :: CoreGrafanaLiveFeature where
  "alphaB = \<lparr>feature_name = ''alpha'', feature_support = 2, feature_description = ''desc-B''\<rparr>"

definition example_core :: "GrafanaLiveCoreScope \<times> heap" where
  "example_core =
     (case new_GrafanaLiveCoreScope heap0 of (this0, h0) \<Rightarrow> registerAll [alphaA, alphaB] this0 h0)"

definition example_get :: "string \<Rightarrow> js_error + DataSourceApi" where
  "example_get key =
     (if key = ''prom'' then Inr \<lparr>ds_channelSupport = None\<rparr>
      else if key = ''loki'' then Inr \<lparr>ds_channelSupport = Some 3\<rparr>
      else if key = ''frozen'' then
        Inl \<lparr>err_class = ''Error'', err_message = ''Datasource not found'',
             err_extensible = False\<rparr>
      else Inl (new_Error ''Datasource not found''))"

definition example_loadPlugin :: "string \<Rightarrow> js_error + GrafanaPlugin option" where
  "example_loadPlugin key =
     (if key = ''geomap'' then Inr (Some \<lparr>plugin_channelSupport = Some 4\<rparr>)
      else if key = ''live'' then Inr (Some \<lparr>plugin_channelSupport = Some 5\<rparr>)
      else if key = ''gauge'' then Inr (Some \<lparr>plugin_channelSupport = None\<rparr>)
      else Inr None)"

definition prom :: DataSourceInstanceSettings where
  "prom = \<lparr>ds_name = ''Prometheus'', ds_type = ''prometheus'', ds_meta = \<lparr>meta_live = True\<rparr>\<rparr>"

definition broken :: DataSourceInstanceSettings where
  "broken = \<lparr>ds_name = ''Broken'', ds_type = ''testdata'', ds_meta = \<lparr>meta_live = True\<rparr>\<rparr>"

definition example_typeError_message :: "js_error \<Rightarrow> string" where
  "example_typeError_message err = ''Cannot add property isHandled, object is not extensible''"

definition example_runtime :: runtime where
  "example_runtime =
     \<lparr>getDataSourceSrv_get = example_get,
      loadPlugin = example_loadPlugin,
      config_datasources = [(''broken'', broken), (''prom'', prom)],
      config_panels =
        [(''geomap'', \<lparr>panel_name = ''Geomap'', panel_live = True,
                        panel_info = Some \<lparr>info_description = ''Map''\<rparr>\<rparr>),
         (''gauge'', \<lparr>panel_name = ''Gauge'', panel_live = True, panel_info = None\<rparr>),
         (''text'', \<lparr>panel_name = ''Text'', panel_live = False, panel_info = None\<rparr>),
         (''live'', \<lparr>panel_name = ''Live'', panel_live = True, panel_info = None\<rparr>)],
      typeError_message = example_typeError_message\<rparr>"

definition empty_runtime :: runtime where
  "empty_runtime =
     \<lparr>getDataSourceSrv_get = example_get, loadPlugin = example_loadPlugin,
      config_datasources = [], config_panels = [],
      typeError_message = example_typeError_message\<rparr>"

definition frozen_runtime :: runtime where
  "frozen_runtime =
     \<lparr>getDataSourceSrv_get = example_get, loadPlugin = example_loadPlugin,
      config_datasources = [(''frozen'', broken), (''prom'', prom)], config_panels = [],
      typeError_message = example_typeError_message\<rparr>"

text \<open>Two lookups of one namespace in the stream scope, one after the other.\<close>

definition stream_first :: "(js_error + addr) \<times> GrafanaLiveScope \<times> heap" where
  "stream_first =
     getChannelSupport example_runtime ''any'' (Stream new_GrafanaLiveStreamScope) heap0"

definition stream_second :: "(js_error + addr) \<times> GrafanaLiveScope \<times> heap" where
  "stream_second =
     getChannelSupport example_runtime ''any'' (fst (snd stream_first)) (snd (snd stream_first))"

lemmas example_defs = heap0_def alphaA_def alphaB_def example_core_def example_get_def
  example_loadPlugin_def prom_def broken_def example_typeError_message_def
  example_runtime_def empty_runtime_def frozen_runtime_def stream_first_def stream_second_def

lemmas model_defs = new_GrafanaLiveCoreScope_def new_Array_def alloc_def register_def push_def
  core_getChannelSupport_def core_listNamespaces_def new_Error_def set_isHandled_def
  new_GrafanaLiveDataSourceScope_def ds_getChannelSupport_def ds_listNamespaces_def
  new_LiveMeasurementsSupport_def new_GrafanaLivePluginScope_def plugin_getChannelSupport_def
  plugin_listNamespaces_def info_description_opt_def new_GrafanaLiveStreamScope_def
  stream_getChannelSupport_def stream_listNamespaces_def

section \<open>Facts about the store, the lookups and the scans\<close>

lemma push_array:
  "objs h a = Some (Array xs) \<Longrightarrow>
     objs (push a x h) = (objs h)(a \<mapsto> Array (xs @ [x])) \<and> nextAddr (push a x h) = nextAddr h"
  by (simp add: push_def)

text \<open>
  A lookup of the data source scope leaves \<^verbatim>\<open>this\<close> alone, allocates at most above
  the addresses in use, and is rejected exactly when the resolver rejects, with the
  resolver's value.
\<close>

lemma ds_getChannelSupport_frame:
  "\<exists>r h'. ds_getChannelSupport rt ns this h = (r, this, h')
     \<and> nextAddr h \<le> nextAddr h'
     \<and> (\<forall>a. a < nextAddr h \<longrightarrow> objs h' a = objs h a)
     \<and> (case getDataSourceSrv_get rt ns of Inl err \<Rightarrow> r = Inl err | Inr _ \<Rightarrow> \<not> isl r)"
  by (auto simp: ds_getChannelSupport_def new_LiveMeasurementsSupport_def alloc_def
      split: sum.splits option.splits)

text \<open>
  The loop invariant of the data source scan. The scan is left at the first entry that
  blocks it, and only there, with a \<^verbatim>\<open>TypeError\<close>; the local array holds what it held
  on entry, followed by the entries of the live data sources that resolved before that
  point.
\<close>

lemma ds_scan_result:
  "objs h names = Some (Array xs) \<Longrightarrow> names < nextAddr h \<Longrightarrow>
   \<exists>r h'. ds_scan rt names cfg this h = (r, this, h')
     \<and> objs h' names = Some (Array (xs @ map ds_entry
           (filter (ds_listed rt) (takeWhile (\<lambda>e. \<not> ds_blocks rt e) cfg))))
     \<and> names < nextAddr h'
     \<and> (isl r \<longleftrightarrow> list_ex (ds_blocks rt) cfg)
     \<and> (isl r \<longrightarrow> err_class (projl r) = ''TypeError'')"
proof (induction cfg arbitrary: h xs)
  case Nil
  then show ?case by simp
next
  case (Cons e cfg)
  obtain key ds where e: "e = (key, ds)" by (cases e)
  obtain r h1 where call: "ds_getChannelSupport rt key this h = (r, this, h1)"
    and mono: "nextAddr h \<le> nextAddr h1"
    and same: "\<forall>a. a < nextAddr h \<longrightarrow> objs h1 a = objs h a"
    and res: "case getDataSourceSrv_get rt key of Inl err \<Rightarrow> r = Inl err | Inr _ \<Rightarrow> \<not> isl r"
    using ds_getChannelSupport_frame [of rt key this h] by blast
  have arr1: "objs h1 names = Some (Array xs)" and lt1: "names < nextAddr h1"
    using Cons.prems same mono by auto
  show ?case
  proof (cases "meta_live (ds_meta ds)")
    case False
    then have "\<not> ds_listed rt e" and "\<not> ds_blocks rt e"
      by (simp_all add: ds_listed_def ds_blocks_def e)
    with False Cons.IH [OF Cons.prems] show ?thesis by (simp add: e)
  next
    case live: True
    show ?thesis
    proof (cases r)
      case (Inr s)
      with res live have listed: "ds_listed rt e" and free: "\<not> ds_blocks rt e"
        by (auto simp: ds_listed_def ds_blocks_def e split: sum.splits)
      let ?h2 = "push names (ds_entry e) h1"
      have "objs ?h2 names = Some (Array (xs @ [ds_entry e]))" and "names < nextAddr ?h2"
        using push_array [OF arr1, of "ds_entry e"] lt1 by simp_all
      from Cons.IH [OF this] listed free live call Inr show ?thesis
        by (simp add: e ds_entry_def)
    next
      case (Inl err)
      with res have get: "getDataSourceSrv_get rt key = Inl err"
        by (auto split: sum.splits)
      with live have unlisted: "\<not> ds_listed rt e"
        by (simp add: ds_listed_def e)
      show ?thesis
      proof (cases "err_extensible err")
        case True
        with get have "\<not> ds_blocks rt e" by (simp add: ds_blocks_def e)
        with True unlisted live call Inl Cons.IH [OF arr1 lt1] show ?thesis
          by (simp add: e set_isHandled_def)
      next
        case False
        with get live have "ds_blocks rt e" by (simp add: ds_blocks_def e)
        with False live call Inl arr1 lt1 show ?thesis
          by (simp add: e set_isHandled_def)
      qed
    qed
  qed
qed

text \<open>
  \<^verbatim>\<open>listNamespaces\<close> of a data source scope with no cached list: fulfilled, with the
  complete list, when no entry blocks the scan, and rejected with a \<^verbatim>\<open>TypeError\<close>,
  caching nothing, when one does.
\<close>

lemma ds_listNamespaces_fulfilled:
  assumes "ds_names this = None" and "\<not> list_ex (ds_blocks rt) (config_datasources rt)"
  shows "\<exists>a h'. ds_listNamespaces rt this h = (Inr a, this\<lparr>ds_names := Some a\<rparr>, h')
     \<and> objs h' a = Some (Array (map ds_entry (filter (ds_listed rt) (config_datasources rt))))"
proof -
  obtain a h1 where new: "new_Array h = (a, h1)" by (cases "new_Array h")
  then have "objs h1 a = Some (Array [])" and "a < nextAddr h1"
    by (auto simp: new_Array_def alloc_def)
  from ds_scan_result [OF this, of rt "config_datasources rt" this]
  obtain r h2 where scan: "ds_scan rt a (config_datasources rt) this h1 = (r, this, h2)"
    and arr: "objs h2 a = Some (Array (map ds_entry (filter (ds_listed rt)
        (takeWhile (\<lambda>e. \<not> ds_blocks rt e) (config_datasources rt)))))"
    and rej: "isl r \<longleftrightarrow> list_ex (ds_blocks rt) (config_datasources rt)"
    by auto
  from assms(2) have whole: "takeWhile (\<lambda>e. \<not> ds_blocks rt e) (config_datasources rt)
      = config_datasources rt"
    by (simp add: list_ex_iff)
  from rej assms(2) obtain u where r: "r = Inr u" by (cases r) auto
  from arr have "objs h2 a =
      Some (Array (map ds_entry (filter (ds_listed rt) (config_datasources rt))))"
    by (simp only: whole)
  with assms(1) new scan r show ?thesis
    by (simp add: ds_listNamespaces_def)
qed

lemma ds_listNamespaces_rejected:
  assumes "ds_names this = None" and "list_ex (ds_blocks rt) (config_datasources rt)"
  shows "\<exists>thrown h'. ds_listNamespaces rt this h = (Inl thrown, this, h')
     \<and> err_class thrown = ''TypeError''"
proof -
  obtain a h1 where new: "new_Array h = (a, h1)" by (cases "new_Array h")
  then have "objs h1 a = Some (Array [])" and "a < nextAddr h1"
    by (auto simp: new_Array_def alloc_def)
  from ds_scan_result [OF this, of rt "config_datasources rt" this]
  obtain r h2 where scan: "ds_scan rt a (config_datasources rt) this h1 = (r, this, h2)"
    and rej: "isl r \<longleftrightarrow> list_ex (ds_blocks rt) (config_datasources rt)"
    and cls: "isl r \<longrightarrow> err_class (projl r) = ''TypeError''"
    by auto
  from rej assms(2) obtain thrown where "r = Inl thrown" by (cases r) auto
  with cls assms(1) new scan show ?thesis
    by (simp add: ds_listNamespaces_def)
qed

text \<open>
  A lookup of the plugin scope changes nothing, whatever it answers. Its rejection value
  cannot be marked handled only when it is the loader's and the loader's cannot.
\<close>

lemma plugin_getChannelSupport_frame:
  "\<exists>r. plugin_getChannelSupport rt ns this h = (r, this, h)
     \<and> (isl r \<longleftrightarrow> \<not> (case loadPlugin rt ns of
        Inr (Some plugin) \<Rightarrow> plugin_channelSupport plugin \<noteq> None
      | _ \<Rightarrow> False))
     \<and> (isl r \<longrightarrow> (err_extensible (projl r) \<longleftrightarrow>
          (case loadPlugin rt ns of Inl err \<Rightarrow> err_extensible err | Inr _ \<Rightarrow> True)))"
  by (auto simp: plugin_getChannelSupport_def new_Error_def split: sum.splits option.splits)

lemma plugin_scan_result:
  "objs h names = Some (Array xs) \<Longrightarrow>
   \<exists>r h'. plugin_scan rt names cfg this h = (r, this, h')
     \<and> objs h' names = Some (Array (xs @ map plugin_entry
           (filter (plugin_listed rt) (takeWhile (\<lambda>e. \<not> plugin_blocks rt e) cfg))))
     \<and> nextAddr h' = nextAddr h
     \<and> (isl r \<longleftrightarrow> list_ex (plugin_blocks rt) cfg)
     \<and> (isl r \<longrightarrow> err_class (projl r) = ''TypeError'')"
proof (induction cfg arbitrary: h xs)
  case Nil
  then show ?case by simp
next
  case (Cons e cfg)
  obtain key panel where e: "e = (key, panel)" by (cases e)
  obtain r where call: "plugin_getChannelSupport rt key this h = (r, this, h)"
    and fails: "isl r \<longleftrightarrow> \<not> (case loadPlugin rt key of
        Inr (Some plugin) \<Rightarrow> plugin_channelSupport plugin \<noteq> None | _ \<Rightarrow> False)"
    and ext: "isl r \<longrightarrow> (err_extensible (projl r) \<longleftrightarrow>
        (case loadPlugin rt key of Inl err \<Rightarrow> err_extensible err | Inr _ \<Rightarrow> True))"
    using plugin_getChannelSupport_frame [of rt key this h] by blast
  show ?case
  proof (cases "panel_live panel")
    case False
    then have "\<not> plugin_listed rt e" and "\<not> plugin_blocks rt e"
      by (simp_all add: plugin_listed_def plugin_blocks_def e)
    with False Cons.IH [OF Cons.prems] show ?thesis by (simp add: e)
  next
    case live: True
    show ?thesis
    proof (cases r)
      case (Inr s)
      with fails live have listed: "plugin_listed rt e" and free: "\<not> plugin_blocks rt e"
        by (auto simp: plugin_listed_def plugin_blocks_def e split: sum.splits)
      let ?h2 = "push names (plugin_entry e) h"
      have "objs ?h2 names = Some (Array (xs @ [plugin_entry e]))"
        and n: "nextAddr ?h2 = nextAddr h"
        using push_array [OF Cons.prems, of "plugin_entry e"] by simp_all
      from Cons.IH [OF this(1)] n listed free live call Inr show ?thesis
        by (simp add: e plugin_entry_def info_description_opt_def)
    next
      case (Inl err)
      with fails live have unlisted: "\<not> plugin_listed rt e"
        by (auto simp: plugin_listed_def e)
      show ?thesis
      proof (cases "err_extensible err")
        case True
        with ext Inl have "\<not> plugin_blocks rt e"
          by (auto simp: plugin_blocks_def e split: sum.splits)
        with True unlisted live call Inl Cons.IH [OF Cons.prems] show ?thesis
          by (simp add: e set_isHandled_def)
      next
        case False
        with ext Inl live have "plugin_blocks rt e"
          by (auto simp: plugin_blocks_def e split: sum.splits)
        with False live call Inl Cons.prems show ?thesis
          by (simp add: e set_isHandled_def)
      qed
    qed
  qed
qed

lemma plugin_listNamespaces_fulfilled:
  assumes "plugin_names this = None" and "\<not> list_ex (plugin_blocks rt) (config_panels rt)"
  shows "\<exists>a h'. plugin_listNamespaces rt this h = (Inr a, this\<lparr>plugin_names := Some a\<rparr>, h')
     \<and> objs h' a = Some (Array (map plugin_entry (filter (plugin_listed rt) (config_panels rt))))"
proof -
  obtain a h1 where new: "new_Array h = (a, h1)" by (cases "new_Array h")
  then have "objs h1 a = Some (Array [])"
    by (auto simp: new_Array_def alloc_def)
  from plugin_scan_result [OF this, of rt "config_panels rt" this]
  obtain r h2 where scan: "plugin_scan rt a (config_panels rt) this h1 = (r, this, h2)"
    and arr: "objs h2 a = Some (Array (map plugin_entry (filter (plugin_listed rt)
        (takeWhile (\<lambda>e. \<not> plugin_blocks rt e) (config_panels rt)))))"
    and rej: "isl r \<longleftrightarrow> list_ex (plugin_blocks rt) (config_panels rt)"
    by auto
  from assms(2) have whole: "takeWhile (\<lambda>e. \<not> plugin_blocks rt e) (config_panels rt)
      = config_panels rt"
    by (simp add: list_ex_iff)
  from rej assms(2) obtain u where r: "r = Inr u" by (cases r) auto
  from arr have "objs h2 a =
      Some (Array (map plugin_entry (filter (plugin_listed rt) (config_panels rt))))"
    by (simp only: whole)
  with assms(1) new scan r show ?thesis
    by (simp add: plugin_listNamespaces_def)
qed

lemma plugin_listNamespaces_rejected:
  assumes "plugin_names this = None" and "list_ex (plugin_blocks rt) (config_panels rt)"
  shows "\<exists>thrown h'. plugin_listNamespaces rt this h = (Inl thrown, this, h')
     \<and> err_class thrown = ''TypeError''"
proof -
  obtain a h1 where new: "new_Array h = (a, h1)" by (cases "new_Array h")
  then have "objs h1 a = Some (Array [])"
    by (auto simp: new_Array_def alloc_def)
  from plugin_scan_result [OF this, of rt "config_panels rt" this]
  obtain r h2 where scan: "plugin_scan rt a (config_panels rt) this h1 = (r, this, h2)"
    and rej: "isl r \<longleftrightarrow> list_ex (plugin_blocks rt) (config_panels rt)"
    and cls: "isl r \<longrightarrow> err_class (projl r) = ''TypeError''"
    by auto
  from rej assms(2) obtain thrown where "r = Inl thrown" by (cases r) auto
  with cls assms(1) new scan show ?thesis
    by (simp add: plugin_listNamespaces_def)
qed

text \<open>
  After a sequence of registrations the map holds, for each name, the support of the
  last registration of that name, and what it held before for every other name.
\<close>

lemma registerAll_features:
  "features (fst (registerAll fs this h)) n =
     (case filter (\<lambda>f. feature_name f = n) fs of
        [] \<Rightarrow> features this n
      | g # gs \<Rightarrow> Some (feature_support (last (g # gs))))"
proof (induction fs arbitrary: this h)
  case Nil
  show ?case by simp
next
  case (Cons f fs)
  show ?case
    using Cons.IH [of "fst (register f this h)" "snd (register f this h)"]
    by (auto simp: register_def split: list.splits)
qed

lemma registerAll_namespaces:
  "objs h (namespaces this) = Some (Array xs) \<Longrightarrow>
   \<exists>this' h'. registerAll fs this h = (this', h') \<and> namespaces this' = namespaces this
     \<and> objs h' (namespaces this) = Some (Array (xs @ map core_entry fs))
     \<and> nextAddr h' = nextAddr h"
proof (induction fs arbitrary: this h xs)
  case Nil
  then show ?case by simp
next
  case (Cons f fs)
  let ?this1 = "fst (register f this h)" and ?h1 = "snd (register f this h)"
  have "objs ?h1 (namespaces ?this1) = Some (Array (xs @ [core_entry f]))"
    and "namespaces ?this1 = namespaces this" and "nextAddr ?h1 = nextAddr h"
    using push_array [OF Cons.prems, of "core_entry f"]
    by (simp_all add: register_def core_entry_def)
  with Cons.IH [OF this(1)] show ?case
    by (auto simp: split_beta)
qed

section \<open>The core scope\<close>

text \<open>
  C1. For every name \<open>n\<close> registered at least once in a sequence of \<^verbatim>\<open>register\<close>
  calls, started from any core scope, \<^verbatim>\<open>getChannelSupport(n)\<close> is fulfilled with the
  support object handed to the last registration of \<open>n\<close> (the same address), and
  leaves the scope and the store as they are. \<^verbatim>\<open>register\<close> has no rejecting branch:
  a repeated name overwrites the map entry and the sequence runs to its end.
\<close>

theorem register_last_write_wins:
  assumes "n \<in> feature_name ` set fs" and "registerAll fs this h = (this', h')"
  shows "core_getChannelSupport n this' h' =
     (Inr (feature_support (last (filter (\<lambda>f. feature_name f = n) fs))), this', h')"
proof -
  from assms(1) have "filter (\<lambda>f. feature_name f = n) fs \<noteq> []"
    by (auto simp: filter_empty_conv)
  then obtain g gs where "filter (\<lambda>f. feature_name f = n) fs = g # gs"
    by (cases "filter (\<lambda>f. feature_name f = n) fs") auto
  with registerAll_features [of fs this h n] assms(2) show ?thesis
    by (simp add: core_getChannelSupport_def)
qed

text \<open>
  The name \<open>alpha\<close> registered twice, with the supports at addresses 1 and 2: the
  lookup answers 2.
\<close>

theorem register_last_write_wins_witness:
  "''alpha'' \<in> feature_name ` set [alphaA, alphaB]
     \<and> core_getChannelSupport ''alpha'' (fst example_core) (snd example_core) =
         (Inr 2, fst example_core, snd example_core)"
  using register_last_write_wins [of "''alpha''" "[alphaA, alphaB]"
      "fst (new_GrafanaLiveCoreScope heap0)" "snd (new_GrafanaLiveCoreScope heap0)"
      "fst example_core" "snd example_core"]
  by (simp add: example_defs model_defs)

text \<open>
  C2 as stated fails: \<^verbatim>\<open>register\<close> pushes an entry on every call, so a name registered
  twice is listed twice. After the two registrations of \<open>alpha\<close> on a new core scope the
  namespace array has two entries for the one registered name.
\<close>

theorem core_listNamespaces_duplicate_counterexample:
  "objs (snd example_core) (namespaces (fst example_core)) =
     Some (Array
       [\<lparr>sv_value = ''alpha'', sv_label = ''alpha'', sv_description = Some ''desc-A''\<rparr>,
        \<lparr>sv_value = ''alpha'', sv_label = ''alpha'', sv_description = Some ''desc-B''\<rparr>])
   \<and> feature_name ` set [alphaA, alphaB] = {''alpha''}"
  by (simp add: example_defs model_defs)

text \<open>
  C2, amended. After any sequence of \<^verbatim>\<open>register\<close> calls on a new core scope,
  \<^verbatim>\<open>listNamespaces\<close> is fulfilled with the scope's namespace array, which holds one
  entry per \<^verbatim>\<open>register\<close> call, in the order of the calls; each entry's value and
  label are the feature name and its description is the description registered by that
  call. The values listed are exactly the registered names; a name registered several
  times is listed once per registration.
\<close>

theorem core_listNamespaces_entries:
  assumes "new_GrafanaLiveCoreScope h = (this0, h0)" and "registerAll fs this0 h0 = (this, h1)"
  shows "core_listNamespaces this h1 = (Inr (namespaces this), this, h1)
     \<and> objs h1 (namespaces this) = Some (Array (map core_entry fs))
     \<and> sv_value ` set (map core_entry fs) = feature_name ` set fs"
proof -
  from assms(1) have "objs h0 (namespaces this0) = Some (Array [])"
    by (auto simp: new_GrafanaLiveCoreScope_def new_Array_def alloc_def)
  from registerAll_namespaces [OF this, of fs] assms(2)
  have arr: "objs h1 (namespaces this) = Some (Array (map core_entry fs))"
    by auto
  have "sv_value ` set (map core_entry fs) = feature_name ` set fs"
    by (force simp: core_entry_def)
  with arr show ?thesis by (simp add: core_listNamespaces_def)
qed

theorem core_listNamespaces_entries_witness:
  "core_listNamespaces (fst example_core) (snd example_core) =
       (Inr 10, fst example_core, snd example_core)
   \<and> objs (snd example_core) 10 = Some (Array [core_entry alphaA, core_entry alphaB])"
  using core_listNamespaces_entries [of heap0 "fst (new_GrafanaLiveCoreScope heap0)"
      "snd (new_GrafanaLiveCoreScope heap0)" "[alphaA, alphaB]" "fst example_core" "snd example_core"]
  by (simp add: example_defs model_defs)

text \<open>
  C7 as stated fails in the error's class: the source has no \<^verbatim>\<open>NotFoundError\<close>, the
  lookup of an unregistered name throws a plain \<^verbatim>\<open>Error\<close>.
\<close>

theorem core_error_class_counterexample:
  "fst (core_getChannelSupport ''beta'' (fst example_core) (snd example_core)) =
     Inl \<lparr>err_class = ''Error'', err_message = ''unknown feature: beta'',
          err_extensible = True\<rparr>
   \<and> ''Error'' \<noteq> ''NotFoundError''"
  by (simp add: example_defs model_defs)

text \<open>
  C7, amended. For every name that no \<^verbatim>\<open>register\<close> call on a new core scope has
  registered, \<^verbatim>\<open>getChannelSupport\<close> is rejected with a plain \<^verbatim>\<open>Error\<close> whose message
  is \<open>unknown feature: \<close> followed by that name.
\<close>

theorem core_getChannelSupport_unknown:
  assumes "n \<notin> feature_name ` set fs"
    and "new_GrafanaLiveCoreScope h = (this0, h0)" and "registerAll fs this0 h0 = (this, h1)"
  shows "core_getChannelSupport n this h1 =
     (Inl \<lparr>err_class = ''Error'', err_message = ''unknown feature: '' @ n,
           err_extensible = True\<rparr>,
      this, h1)"
proof -
  from assms(1) have "filter (\<lambda>f. feature_name f = n) fs = []"
    by (auto simp: filter_empty_conv)
  moreover from assms(2) have "features this0 n = None"
    by (auto simp: new_GrafanaLiveCoreScope_def new_Array_def alloc_def)
  ultimately have "features this n = None"
    using registerAll_features [of fs this0 h0 n] assms(3) by simp
  then show ?thesis by (simp add: core_getChannelSupport_def new_Error_def)
qed

theorem core_getChannelSupport_unknown_witness:
  "''beta'' \<notin> feature_name ` set [alphaA, alphaB]
   \<and> core_getChannelSupport ''beta'' (fst example_core) (snd example_core) =
       (Inl \<lparr>err_class = ''Error'', err_message = ''unknown feature: beta'',
             err_extensible = True\<rparr>,
        fst example_core, snd example_core)"
  using core_getChannelSupport_unknown [of "''beta''" "[alphaA, alphaB]" heap0
      "fst (new_GrafanaLiveCoreScope heap0)" "snd (new_GrafanaLiveCoreScope heap0)"
      "fst example_core" "snd example_core"]
  by (simp add: example_defs model_defs)

section \<open>The data source scope\<close>

text \<open>
  C4. When a call of \<^verbatim>\<open>listNamespaces\<close> on a data source scope is fulfilled with an
  array reference, whatever the scope, the store and the configuration were, the scope
  has that reference cached, and a second call is fulfilled with that same reference
  and changes neither the scope nor the store, under every runtime: a changed
  configuration is not read again and nothing is scanned. The cached reference is
  tested, not the array behind it, so an empty first list is cached like any other.
  (A first call that is rejected produces no list and caches none, see
  \<open>ds_listNamespaces_rejected\<close>.)
\<close>

theorem ds_listNamespaces_cached:
  assumes "ds_listNamespaces rt this h = (Inr a, this1, h1)"
  shows "ds_names this1 = Some a
     \<and> (\<forall>rt'. ds_listNamespaces rt' this1 h1 = (Inr a, this1, h1))"
proof (cases "ds_names this")
  case (Some cached)
  with assms show ?thesis by (auto simp: ds_listNamespaces_def)
next
  case None
  with assms have "ds_names this1 = Some a"
    by (auto simp: ds_listNamespaces_def split: prod.splits sum.splits)
  then show ?thesis by (simp add: ds_listNamespaces_def)
qed

text \<open>
  The first call under an empty configuration yields the empty array at address 10; the
  second call, under a configuration with two live data sources, yields address 10
  again and the array is still empty.
\<close>

theorem ds_listNamespaces_cached_witness:
  "ds_listNamespaces empty_runtime new_GrafanaLiveDataSourceScope heap0 =
       (Inr 10, \<lparr>ds_names = Some 10\<rparr>, \<lparr>objs = [10 \<mapsto> Array []], nextAddr = 11\<rparr>)
   \<and> ds_listNamespaces example_runtime \<lparr>ds_names = Some 10\<rparr>
         \<lparr>objs = [10 \<mapsto> Array []], nextAddr = 11\<rparr> =
       (Inr 10, \<lparr>ds_names = Some 10\<rparr>, \<lparr>objs = [10 \<mapsto> Array []], nextAddr = 11\<rparr>)"
proof -
  have first: "ds_listNamespaces empty_runtime new_GrafanaLiveDataSourceScope heap0 =
      (Inr 10, \<lparr>ds_names = Some 10\<rparr>, \<lparr>objs = [10 \<mapsto> Array []], nextAddr = 11\<rparr>)"
    by (simp add: example_defs model_defs)
  from ds_listNamespaces_cached [OF first] first show ?thesis by simp
qed

text \<open>
  C5: the code departs from the claim. With two live data sources, the first rejected
  by the resolver with a frozen error object and the second resolving,
  \<^verbatim>\<open>listNamespaces\<close> is rejected: the \<^verbatim>\<open>catch\<close> meant to swallow the rejection throws
  a \<^verbatim>\<open>TypeError\<close> when it sets \<^verbatim>\<open>isHandled\<close>, the scan stops before the second data
  source, no list is returned and none is cached.
\<close>

theorem ds_listNamespaces_handler_throws:
  "ds_listNamespaces frozen_runtime new_GrafanaLiveDataSourceScope heap0 =
     (Inl \<lparr>err_class = ''TypeError'',
           err_message = ''Cannot add property isHandled, object is not extensible'',
           err_extensible = True\<rparr>,
      \<lparr>ds_names = None\<rparr>,
      \<lparr>objs = [10 \<mapsto> Array []], nextAddr = 11\<rparr>)"
  by (simp add: example_defs model_defs)

text \<open>
  Where the rejection value can be marked handled the scan does what is claimed: with
  two live data sources, in either order, one that resolves and one rejected with such
  a value, \<^verbatim>\<open>listNamespaces\<close> on a scope with no cached list is fulfilled and its array
  holds exactly one entry, that of the data source that resolved.
\<close>

lemma ds_listNamespaces_skips_marked_failure:
  assumes "ds_names this = None"
    and "config_datasources rt = [(k1, d1), (k2, d2)]
       \<or> config_datasources rt = [(k2, d2), (k1, d1)]"
    and "meta_live (ds_meta d1)" and "meta_live (ds_meta d2)"
    and "getDataSourceSrv_get rt k1 = Inr inst"
    and "getDataSourceSrv_get rt k2 = Inl err" and "err_extensible err"
  shows "\<exists>a h'. ds_listNamespaces rt this h = (Inr a, this\<lparr>ds_names := Some a\<rparr>, h')
     \<and> objs h' a = Some (Array
         [\<lparr>sv_value = ds_type d1, sv_label = ds_name d1, sv_description = Some (ds_type d1)\<rparr>])"
proof -
  have "map ds_entry (filter (ds_listed rt) (config_datasources rt)) =
      [\<lparr>sv_value = ds_type d1, sv_label = ds_name d1, sv_description = Some (ds_type d1)\<rparr>]"
    using assms(2-) by (auto simp: ds_listed_def ds_entry_def)
  moreover have "\<not> list_ex (ds_blocks rt) (config_datasources rt)"
    using assms(2-) by (auto simp: ds_blocks_def)
  ultimately show ?thesis
    using ds_listNamespaces_fulfilled [OF assms(1), of rt h] by simp
qed

lemma ds_listNamespaces_skips_marked_failure_example:
  "\<exists>h'. ds_listNamespaces example_runtime new_GrafanaLiveDataSourceScope heap0 =
       (Inr 10, \<lparr>ds_names = Some 10\<rparr>, h')
     \<and> objs h' 10 = Some (Array
         [\<lparr>sv_value = ''prometheus'', sv_label = ''Prometheus'',
           sv_description = Some ''prometheus''\<rparr>])"
  using ds_listNamespaces_skips_marked_failure [of new_GrafanaLiveDataSourceScope example_runtime
      "''prom''" prom "''broken''" broken "\<lparr>ds_channelSupport = None\<rparr>"
      "new_Error ''Datasource not found''" heap0]
  by (simp add: example_defs model_defs)

section \<open>The plugin scope\<close>

text \<open>
  C6 as stated fails in the error classes: the source has neither \<^verbatim>\<open>NotFoundError\<close>
  nor \<^verbatim>\<open>UnsupportedError\<close>. A namespace with no plugin and a plugin with no channel
  support are both answered with a plain \<^verbatim>\<open>Error\<close>, so the class does not tell them
  apart.
\<close>

theorem plugin_error_class_counterexample:
  "fst (plugin_getChannelSupport example_runtime ''nope'' new_GrafanaLivePluginScope heap0) =
     Inl \<lparr>err_class = ''Error'', err_message = ''Unknown streaming plugin: nope'',
          err_extensible = True\<rparr>
   \<and> fst (plugin_getChannelSupport example_runtime ''gauge'' new_GrafanaLivePluginScope heap0) =
     Inl \<lparr>err_class = ''Error'', err_message = ''Plugin does not support streaming: gauge'',
          err_extensible = True\<rparr>
   \<and> ''Error'' \<noteq> ''NotFoundError'' \<and> ''Error'' \<noteq> ''UnsupportedError''"
  by (simp add: example_defs model_defs)

text \<open>
  C6, amended. In the plugin scope, for every namespace: when the loader yields no
  plugin, \<^verbatim>\<open>getChannelSupport\<close> is rejected with a plain \<^verbatim>\<open>Error\<close> whose message is
  \<open>Unknown streaming plugin: \<close> followed by the namespace; when the plugin loads and
  declares no \<^verbatim>\<open>channelSupport\<close>, it is rejected with a plain \<^verbatim>\<open>Error\<close> whose message
  is \<open>Plugin does not support streaming: \<close> followed by the namespace. The two
  rejections differ in their messages, for every namespace, and leave the scope and the
  store unchanged.
\<close>

theorem plugin_getChannelSupport_errors:
  "(loadPlugin rt ns = Inr None \<longrightarrow>
      plugin_getChannelSupport rt ns this h =
        (Inl \<lparr>err_class = ''Error'', err_message = ''Unknown streaming plugin: '' @ ns,
              err_extensible = True\<rparr>,
         this, h))
   \<and> (loadPlugin rt ns = Inr (Some plugin) \<and> plugin_channelSupport plugin = None \<longrightarrow>
      plugin_getChannelSupport rt ns this h =
        (Inl \<lparr>err_class = ''Error'',
              err_message = ''Plugin does not support streaming: '' @ ns, err_extensible = True\<rparr>,
         this, h))
   \<and> ''Unknown streaming plugin: '' @ ns \<noteq> ''Plugin does not support streaming: '' @ ns"
  by (simp add: plugin_getChannelSupport_def new_Error_def)

theorem plugin_getChannelSupport_errors_witness:
  "loadPlugin example_runtime ''nope'' = Inr None
   \<and> plugin_getChannelSupport example_runtime ''nope'' new_GrafanaLivePluginScope heap0 =
       (Inl \<lparr>err_class = ''Error'', err_message = ''Unknown streaming plugin: nope'',
             err_extensible = True\<rparr>,
        new_GrafanaLivePluginScope, heap0)
   \<and> loadPlugin example_runtime ''gauge'' = Inr (Some \<lparr>plugin_channelSupport = None\<rparr>)
   \<and> plugin_getChannelSupport example_runtime ''gauge'' new_GrafanaLivePluginScope heap0 =
       (Inl \<lparr>err_class = ''Error'',
             err_message = ''Plugin does not support streaming: gauge'', err_extensible = True\<rparr>,
        new_GrafanaLivePluginScope, heap0)"
  using plugin_getChannelSupport_errors [of example_runtime "''nope''"
      new_GrafanaLivePluginScope heap0 "\<lparr>plugin_channelSupport = None\<rparr>"]
    plugin_getChannelSupport_errors [of example_runtime "''gauge''"
      new_GrafanaLivePluginScope heap0 "\<lparr>plugin_channelSupport = None\<rparr>"]
  by (simp add: example_defs)

text \<open>
  C10. When \<^verbatim>\<open>listNamespaces\<close> on a new plugin scope is fulfilled, its array holds, in
  the order of the configuration, one entry for every live panel whose plugin loads with
  a \<^verbatim>\<open>channelSupport\<close>, and nothing else, and the scope caches the array. The entry's
  value is the panel's configuration key (the id handed to the loader), its label the
  panel's name, and its description the description of the panel's \<^verbatim>\<open>info\<close>, absent
  when the panel has no \<^verbatim>\<open>info\<close>. (The call is fulfilled unless the loader rejects,
  for a live panel, with a value that cannot be marked handled: see
  \<open>plugin_listNamespaces_fulfilled\<close> and \<open>plugin_listNamespaces_rejected\<close>.)
\<close>

theorem plugin_listNamespaces_entries:
  assumes "plugin_listNamespaces rt new_GrafanaLivePluginScope h = (Inr a, this', h')"
  shows "this' = \<lparr>plugin_names = Some a\<rparr>
     \<and> objs h' a = Some (Array (map plugin_entry (filter (plugin_listed rt) (config_panels rt))))"
proof (cases "list_ex (plugin_blocks rt) (config_panels rt)")
  case True
  with plugin_listNamespaces_rejected [of new_GrafanaLivePluginScope rt h] assms
  show ?thesis by (simp add: new_GrafanaLivePluginScope_def)
next
  case False
  with plugin_listNamespaces_fulfilled [of new_GrafanaLivePluginScope rt h] assms
  show ?thesis by (auto simp: new_GrafanaLivePluginScope_def)
qed

text \<open>
  Four panels: \<open>geomap\<close> (live, supported, with a description), \<open>gauge\<close> (live, its
  plugin has no channel support), \<open>text\<close> (not live) and \<open>live\<close> (live, supported,
  no \<^verbatim>\<open>info\<close>). The call is fulfilled with two entries, the second without a
  description.
\<close>

theorem plugin_listNamespaces_entries_witness:
  "fst (plugin_listNamespaces example_runtime new_GrafanaLivePluginScope heap0) = Inr 10
   \<and> fst (snd (plugin_listNamespaces example_runtime new_GrafanaLivePluginScope heap0)) =
       \<lparr>plugin_names = Some 10\<rparr>
   \<and> objs (snd (snd (plugin_listNamespaces example_runtime new_GrafanaLivePluginScope heap0))) 10 =
       Some (Array
         [\<lparr>sv_value = ''geomap'', sv_label = ''Geomap'', sv_description = Some ''Map''\<rparr>,
          \<lparr>sv_value = ''live'', sv_label = ''Live'', sv_description = None\<rparr>])"
proof -
  have fulfilled: "fst (plugin_listNamespaces example_runtime new_GrafanaLivePluginScope heap0)
      = Inr 10"
    by (simp add: example_defs model_defs)
  then have "plugin_listNamespaces example_runtime new_GrafanaLivePluginScope heap0 =
      (Inr 10, fst (snd (plugin_listNamespaces example_runtime new_GrafanaLivePluginScope heap0)),
       snd (snd (plugin_listNamespaces example_runtime new_GrafanaLivePluginScope heap0)))"
    by (metis prod.collapse)
  from plugin_listNamespaces_entries [OF this] fulfilled show ?thesis
    by (simp add: plugin_entry_def plugin_listed_def example_defs)
qed

section \<open>The stream scope\<close>

text \<open>
  C9. In the stream scope \<^verbatim>\<open>getChannelSupport\<close> is fulfilled for every namespace
  string, whatever the scope and the store hold: the result is a reference to a
  \<^verbatim>\<open>LiveMeasurementsSupport\<close> object in the store, the namespace is not looked at, and
  the scope itself is unchanged.
\<close>

theorem stream_getChannelSupport_default:
  "\<exists>a h'. stream_getChannelSupport namespace this h = (Inr a, this, h')
     \<and> objs h' a = Some LiveMeasurementsSupport"
  by (simp add: stream_getChannelSupport_def new_LiveMeasurementsSupport_def alloc_def)

theorem stream_getChannelSupport_default_witness:
  "stream_getChannelSupport ''never seen'' new_GrafanaLiveStreamScope heap0 =
     (Inr 10, new_GrafanaLiveStreamScope,
      \<lparr>objs = [10 \<mapsto> LiveMeasurementsSupport], nextAddr = 11\<rparr>)"
  using stream_getChannelSupport_default [of "''never seen''" new_GrafanaLiveStreamScope heap0]
  by (simp add: example_defs model_defs)

section \<open>All four scopes\<close>

text \<open>
  C3 as stated fails where a lookup ends in \<^verbatim>\<open>new LiveMeasurementsSupport()\<close>: two
  successive lookups of one namespace in the stream scope are both fulfilled, with two
  different objects (addresses 10 and 11).
\<close>

theorem stream_getChannelSupport_fresh_counterexample:
  "fst stream_first = Inr 10 \<and> fst stream_second = Inr 11
     \<and> fst stream_first \<noteq> fst stream_second"
  by (simp add: example_defs model_defs)

text \<open>
  C3, amended. For every scope and namespace, with the collaborators unchanged, two
  successive \<^verbatim>\<open>getChannelSupport\<close> calls leave the scope as it was and are either both
  rejected, with the same error, or both fulfilled. When fulfilled, they yield the same
  support object where the support is a registered feature's or a channel support that
  a data source or plugin declares; where the lookup constructs the default (the stream
  scope, and a data source without \<^verbatim>\<open>channelSupport\<close>) each call yields a new
  \<^verbatim>\<open>LiveMeasurementsSupport\<close>, so the two results are different objects of that class.
\<close>

theorem getChannelSupport_twice:
  assumes "getChannelSupport rt ns sc h = (r1, sc1, h1)"
    and "getChannelSupport rt ns sc1 h1 = (r2, sc2, h2)"
  shows "sc1 = sc \<and> sc2 = sc \<and>
     (case r1 of
        Inl e \<Rightarrow> r2 = Inl e
      | Inr a \<Rightarrow>
          (if constructs_default rt ns sc
           then \<exists>b. r2 = Inr b \<and> b \<noteq> a \<and> objs h2 a = Some LiveMeasurementsSupport
                  \<and> objs h2 b = Some LiveMeasurementsSupport
           else r2 = Inr a))"
proof (cases sc)
  case (Core this)
  with assms show ?thesis
    by (auto simp: core_getChannelSupport_def constructs_default_def split: option.splits)
next
  case (DataSource this)
  with assms show ?thesis
    by (auto simp: ds_getChannelSupport_def constructs_default_def
        new_LiveMeasurementsSupport_def alloc_def split: sum.splits option.splits)
next
  case (Plugin this)
  with assms show ?thesis
    by (auto simp: plugin_getChannelSupport_def constructs_default_def
        split: sum.splits option.splits)
next
  case (Stream this)
  with assms show ?thesis
    by (auto simp: stream_getChannelSupport_def constructs_default_def
        new_LiveMeasurementsSupport_def alloc_def)
qed

text \<open>
  The stream scope twice (two new objects), and the plugin scope twice for a plugin
  that declares its support at address 4 (the same object both times).
\<close>

theorem getChannelSupport_twice_witness:
  "fst stream_first = Inr 10 \<and> fst stream_second = Inr 11
     \<and> objs (snd (snd stream_second)) 10 = Some LiveMeasurementsSupport
     \<and> objs (snd (snd stream_second)) 11 = Some LiveMeasurementsSupport
     \<and> fst (snd stream_second) = Stream new_GrafanaLiveStreamScope
     \<and> getChannelSupport example_runtime ''geomap'' (Plugin new_GrafanaLivePluginScope) heap0 =
         (Inr 4, Plugin new_GrafanaLivePluginScope, heap0)"
  using getChannelSupport_twice [of example_runtime "''any''" "Stream new_GrafanaLiveStreamScope"
      heap0 "fst stream_first" "fst (snd stream_first)" "snd (snd stream_first)"
      "fst stream_second" "fst (snd stream_second)" "snd (snd stream_second)"]
    getChannelSupport_twice [of example_runtime "''geomap''" "Plugin new_GrafanaLivePluginScope"
      heap0 "Inr 4" "Plugin new_GrafanaLivePluginScope" heap0
      "Inr 4" "Plugin new_GrafanaLivePluginScope" heap0]
  by (simp add: example_defs model_defs)

text \<open>
  C8. For every scope, a rejected \<^verbatim>\<open>getChannelSupport\<close> returns the scope and the
  store exactly as it found them: the core scope's features map and namespace array,
  and the cached names of the other scopes, are what they were. Every later lookup, of
  any namespace, and a later \<^verbatim>\<open>listNamespaces\<close> therefore behave as if the rejected
  lookup had not been made.
\<close>

theorem getChannelSupport_failure_frame:
  assumes "getChannelSupport rt ns sc h = (Inl e, sc', h')"
  shows "sc' = sc \<and> h' = h
     \<and> (\<forall>ns'. getChannelSupport rt ns' sc' h' = getChannelSupport rt ns' sc h)
     \<and> listNamespaces rt sc' h' = listNamespaces rt sc h"
proof -
  have "sc' = sc \<and> h' = h"
  proof (cases sc)
    case (Core this)
    with assms show ?thesis
      by (auto simp: core_getChannelSupport_def split: option.splits)
  next
    case (DataSource this)
    with assms show ?thesis
      by (auto simp: ds_getChannelSupport_def new_LiveMeasurementsSupport_def alloc_def
          split: sum.splits option.splits)
  next
    case (Plugin this)
    with assms show ?thesis
      by (auto simp: plugin_getChannelSupport_def split: sum.splits option.splits)
  next
    case (Stream this)
    with assms show ?thesis
      by (auto simp: stream_getChannelSupport_def new_LiveMeasurementsSupport_def alloc_def)
  qed
  then show ?thesis by simp
qed

text \<open>
  A rejected lookup of \<open>gauge\<close> in the plugin scope, and the lookup of \<open>geomap\<close>
  that follows it.
\<close>

theorem getChannelSupport_failure_frame_witness:
  "getChannelSupport example_runtime ''gauge'' (Plugin new_GrafanaLivePluginScope) heap0 =
     (Inl \<lparr>err_class = ''Error'', err_message = ''Plugin does not support streaming: gauge'',
           err_extensible = True\<rparr>,
      Plugin new_GrafanaLivePluginScope, heap0)
   \<and> getChannelSupport example_runtime ''geomap'' (Plugin new_GrafanaLivePluginScope) heap0 =
     (Inr 4, Plugin new_GrafanaLivePluginScope, heap0)"
  using getChannelSupport_failure_frame [of example_runtime "''gauge''"
      "Plugin new_GrafanaLivePluginScope" heap0
      "\<lparr>err_class = ''Error'', err_message = ''Plugin does not support streaming: gauge'',
        err_extensible = True\<rparr>"
      "Plugin new_GrafanaLivePluginScope" heap0]
  by (simp add: example_defs model_defs)

end
